theory Spec2Isabelle
  imports Complex_Main "HOL-Library.Sublist"
begin

section \<open>JavaScript values\<close>

text \<open>
  A JavaScript \<open>number\<close> is either \<open>NaN\<close> or a finite value. Finite values are
  modelled as reals: the rows come from JSON, which carries neither \<open>NaN\<close> nor an
  infinity, and the rounding of IEEE doubles is not modelled.
\<close>

datatype jsnumber = NaN | Num real

text \<open>
  A column of a row as the client delivers it: \<open>null\<close>, a key that is missing
  (reading it gives \<open>undefined\<close>), or a value.
\<close>

datatype 'a nullable = Null | Missing | Val 'a

text \<open>\<open>x ?? undefined\<close>; an optional field \<open>f?: T\<close> is an \<open>option\<close>, \<open>None\<close> being \<open>undefined\<close>.\<close>

definition or_undefined :: "'a nullable \<Rightarrow> 'a option" where
  "or_undefined x = (case x of Null \<Rightarrow> None | Missing \<Rightarrow> None | Val v \<Rightarrow> Some v)"

text \<open>What reading a property of a chart point may give.\<close>

datatype jsvalue = JUndefined | JString string | JNumber jsnumber | JObject

definition of_optional :: "jsnumber option \<Rightarrow> jsvalue" where
  "of_optional x = (case x of None \<Rightarrow> JUndefined | Some n \<Rightarrow> JNumber n)"

section \<open>The data model\<close>

record SensorData =
  timestamp :: string
  ph :: "jsnumber nullable"
  ph_voltage :: "jsnumber nullable"
  temp1 :: "jsnumber nullable"
  temp2 :: "jsnumber nullable"
  bme_temperature :: "jsnumber nullable"
  bme_humidity :: "jsnumber nullable"
  bme_pressure :: "jsnumber nullable"
  bme_gas_resistance :: "jsnumber nullable"
  methan_raw :: "string list nullable"
  methane_ppm :: "jsnumber nullable"
  methane_percent :: "jsnumber nullable"
  methane_temperature :: "jsnumber nullable"
  methane_faults :: "string list nullable"

record ChartDataPoint =
  timestamp :: string
  date :: string
  ph :: "jsnumber option"
  ph_voltage :: "jsnumber option"
  temp1 :: "jsnumber option"
  temp2 :: "jsnumber option"
  bme_temperature :: "jsnumber option"
  bme_humidity :: "jsnumber option"
  bme_pressure :: "jsnumber option"
  bme_gas_resistance :: "jsnumber option"
  methane_ppm :: "jsnumber option"
  methane_percent :: "jsnumber option"
  methane_temperature :: "jsnumber option"

record AlarmZone =
  min' :: real
  max' :: real
  label :: string
  color :: string

section \<open>The charts page\<close>

text \<open>
  The state of \<open>ChartsPage\<close>, and \<open>fetchData\<close> from its \<open>await\<close> on. The query
  gives its rows (or \<open>null\<close>) without an error, or an error, or it throws; the
  \<open>finally\<close> block runs on each path.
\<close>

record ChartsPage =
  data :: "SensorData list"
  loading :: bool

datatype query_result = Rows "SensorData list option" | Error | Thrown

definition fetchData :: "query_result \<Rightarrow> ChartsPage \<Rightarrow> ChartsPage" where
  "fetchData res s =
     (case res of
        Error \<Rightarrow> s\<lparr>ChartsPage.loading := False\<rparr>
      | Rows sensorData \<Rightarrow>
          s\<lparr>ChartsPage.data := rev (case sensorData of None \<Rightarrow> [] | Some rows \<Rightarrow> rows),
            ChartsPage.loading := False\<rparr>
      | Thrown \<Rightarrow> s\<lparr>ChartsPage.loading := False\<rparr>)"

text \<open>
  \<open>chartData\<close>: one chart point per row. The two renderings of the timestamp go
  through the runtime's locale-dependent \<open>Date\<close>; they are parameters here.
\<close>

definition chartData ::
  "(string \<Rightarrow> string) \<Rightarrow> (string \<Rightarrow> string) \<Rightarrow> SensorData list \<Rightarrow> ChartDataPoint list" where
  "chartData formatTimestamp toLocaleDateString rows =
     map (\<lambda>point.
       \<lparr>timestamp = formatTimestamp (SensorData.timestamp point),
        date = toLocaleDateString (SensorData.timestamp point),
        ph = or_undefined (SensorData.ph point),
        ph_voltage = or_undefined (SensorData.ph_voltage point),
        temp1 = or_undefined (SensorData.temp1 point),
        temp2 = or_undefined (SensorData.temp2 point),
        bme_temperature = or_undefined (SensorData.bme_temperature point),
        bme_humidity = or_undefined (SensorData.bme_humidity point),
        bme_pressure = or_undefined (SensorData.bme_pressure point),
        bme_gas_resistance = or_undefined (SensorData.bme_gas_resistance point),
        methane_ppm = or_undefined (SensorData.methane_ppm point),
        methane_percent = or_undefined (SensorData.methane_percent point),
        methane_temperature = or_undefined (SensorData.methane_temperature point)\<rparr>) rows"

text \<open>
  \<open>point[key]\<close> for a key that is any string: an own field of the point, or a member
  the object literal inherits from \<open>Object.prototype\<close>, or \<open>undefined\<close>.
\<close>

definition Object_prototype :: "string list" where
  "Object_prototype =
     [''constructor'', ''hasOwnProperty'', ''isPrototypeOf'', ''propertyIsEnumerable'',
      ''toLocaleString'', ''toString'', ''valueOf'', ''__proto__'', ''__defineGetter__'',
      ''__defineSetter__'', ''__lookupGetter__'', ''__lookupSetter__'']"

definition property :: "ChartDataPoint \<Rightarrow> string \<Rightarrow> jsvalue" where
  "property point key =
     (if key = ''timestamp'' then JString (timestamp point)
      else if key = ''date'' then JString (date point)
      else if key = ''ph'' then of_optional (ph point)
      else if key = ''ph_voltage'' then of_optional (ph_voltage point)
      else if key = ''temp1'' then of_optional (temp1 point)
      else if key = ''temp2'' then of_optional (temp2 point)
      else if key = ''bme_temperature'' then of_optional (bme_temperature point)
      else if key = ''bme_humidity'' then of_optional (bme_humidity point)
      else if key = ''bme_pressure'' then of_optional (bme_pressure point)
      else if key = ''bme_gas_resistance'' then of_optional (bme_gas_resistance point)
      else if key = ''methane_ppm'' then of_optional (methane_ppm point)
      else if key = ''methane_percent'' then of_optional (methane_percent point)
      else if key = ''methane_temperature'' then of_optional (methane_temperature point)
      else if List.member Object_prototype key then JObject
      else JUndefined)"

text \<open>The first lines of \<open>SensorChart\<close>: the points with a value for one of the keys.\<close>

definition filteredData :: "ChartDataPoint list \<Rightarrow> string list \<Rightarrow> ChartDataPoint list" where
  "filteredData points dataKeys =
     filter (\<lambda>point. list_ex (\<lambda>key. property point key \<noteq> JUndefined) dataKeys) points"

text \<open>
  The pool \<open>allValues\<close>: the outer loop runs over the keys, the inner one over the
  points, and a value is pushed when it is a number and not \<open>NaN\<close>.
\<close>

definition allValues :: "string list \<Rightarrow> ChartDataPoint list \<Rightarrow> real list" where
  "allValues dataKeys points =
     concat (map (\<lambda>key.
       concat (map (\<lambda>point.
         (case property point key of JNumber (Num v) \<Rightarrow> [v] | _ \<Rightarrow> [])) points)) dataKeys)"

text \<open>
  \<open>yAxisDomain\<close>: the configured domain, replaced when the chart scales itself and the
  pool has a value. \<open>Math.min\<close> and \<open>Math.max\<close> are applied to a pool that is not empty.
\<close>

definition yAxisDomain ::
  "(real \<times> real) option \<Rightarrow> bool \<Rightarrow> string list \<Rightarrow> ChartDataPoint list \<Rightarrow> (real \<times> real) option" where
  "yAxisDomain domain autoScale dataKeys points =
     (if autoScale \<and> 0 < length points then
        (case allValues dataKeys points of
           [] \<Rightarrow> domain
         | v # vs \<Rightarrow>
             (let mn = fold min vs v;
                  mx = fold max vs v;
                  range = mx - mn;
                  padding = range * 0.1
              in Some (mn - padding, mx + padding)))
      else domain)"

text \<open>The properties of \<open>SensorChart\<close>, and what it returns.\<close>

record props =
  title :: string
  description :: string
  points :: "ChartDataPoint list"
  dataKeys :: "string list"
  config :: "(string \<times> string \<times> string) list"
  domain :: "(real \<times> real) option"
  autoScale :: bool
  alarmZones :: "AlarmZone list option"

record line_chart =
  chart_title :: string
  chart_description :: string
  data_points :: nat
  chart_data :: "ChartDataPoint list"
  reference_areas :: "(real \<times> real \<times> string) list"
  y_domain :: "(real \<times> real) option"
  lines :: "string list"

datatype card = No_data_available string string | Chart (the_chart: line_chart)

definition SensorChart :: "props \<Rightarrow> card" where
  "SensorChart p =
     (let filtered = filteredData (points p) (dataKeys p) in
      if length filtered = 0 then No_data_available (title p) (description p)
      else Chart
        \<lparr>chart_title = title p,
         chart_description = description p,
         data_points = length filtered,
         chart_data = filtered,
         reference_areas =
           (case alarmZones p of
              None \<Rightarrow> []
            | Some zones \<Rightarrow> map (\<lambda>zone. (min' zone, max' zone, color zone)) zones),
         y_domain = yAxisDomain (domain p) (autoScale p) (dataKeys p) filtered,
         lines = dataKeys p\<rparr>)"

text \<open>The alarm definitions.\<close>

definition degree :: string where
  "degree = [CHR 0xC2, CHR 0xB0]"

definition ALARM_ZONES_tank_temperature :: "AlarmZone list" where
  "ALARM_ZONES_tank_temperature =
     [\<lparr>min' = 0, max' = 30, label = ''Too cold (<30'' @ degree @ ''C)'', color = ''#3b82f6''\<rparr>,
      \<lparr>min' = 30, max' = 40, label = ''Optimal (30-40'' @ degree @ ''C)'', color = ''#22c55e''\<rparr>,
      \<lparr>min' = 40, max' = 80, label = ''Too hot (>40'' @ degree @ ''C)'', color = ''#ef4444''\<rparr>]"

definition ALARM_ZONES_ph :: "AlarmZone list" where
  "ALARM_ZONES_ph =
     [\<lparr>min' = 0, max' = 6, label = ''Too acidic (<6)'', color = ''#ef4444''\<rparr>,
      \<lparr>min' = 6, max' = 8, label = ''Optimal (6-8)'', color = ''#22c55e''\<rparr>,
      \<lparr>min' = 8, max' = 14, label = ''Too alkaline (>8)'', color = ''#ef4444''\<rparr>]"


definition ohm :: string where
  "ohm = [CHR 0xCE, CHR 0xA9]"

text \<open>The seven charts of the page, over the chart points.\<close>

definition chart_definitions :: "ChartDataPoint list \<Rightarrow> props list" where
  "chart_definitions chart_points =
     [\<lparr>title = ''pH Value'', description = ''pH level over time'', points = chart_points,
       dataKeys = [''ph''],
       config = [(''ph'', ''pH Value'', ''#3b82f6'')],
       domain = None, autoScale = False, alarmZones = Some ALARM_ZONES_ph\<rparr>,
      \<lparr>title = ''Tank Temperatures'', description = ''Temperature 1 & 2 in tank'',
       points = chart_points,
       dataKeys = [''temp1'', ''temp2''],
       config = [(''temp1'', ''Temperature 1 ('' @ degree @ ''C)'', ''#ef4444''),
                 (''temp2'', ''Temperature 2 ('' @ degree @ ''C)'', ''#f97316'')],
       domain = Some (0, 80), autoScale = False,
       alarmZones = Some ALARM_ZONES_tank_temperature\<rparr>,
      \<lparr>title = ''Gas Temperatures'', description = ''BME & Methane temperature sensors'',
       points = chart_points,
       dataKeys = [''bme_temperature'', ''methane_temperature''],
       config = [(''bme_temperature'', ''BME Temperature ('' @ degree @ ''C)'', ''#eab308''),
                 (''methane_temperature'', ''Methane Temperature ('' @ degree @ ''C)'', ''#22c55e'')],
       domain = None, autoScale = False, alarmZones = None\<rparr>,
      \<lparr>title = ''Humidity'', description = ''BME sensor humidity'', points = chart_points,
       dataKeys = [''bme_humidity''],
       config = [(''bme_humidity'', ''Humidity (%)'', ''#06b6d4'')],
       domain = None, autoScale = False, alarmZones = None\<rparr>,
      \<lparr>title = ''Air Pressure'', description = ''BME sensor air pressure'',
       points = chart_points,
       dataKeys = [''bme_pressure''],
       config = [(''bme_pressure'', ''Air Pressure (hPa)'', ''#8b5cf6'')],
       domain = None, autoScale = True, alarmZones = None\<rparr>,
      \<lparr>title = ''Gas Resistance'', description = ''BME sensor gas resistance'',
       points = chart_points,
       dataKeys = [''bme_gas_resistance''],
       config = [(''bme_gas_resistance'', ''Gas Resistance (k'' @ ohm @ '')'', ''#10b981'')],
       domain = None, autoScale = False, alarmZones = None\<rparr>,
      \<lparr>title = ''Methane Measurements'', description = ''Methane PPM and percentage'',
       points = chart_points,
       dataKeys = [''methane_ppm'', ''methane_percent''],
       config = [(''methane_ppm'', ''Methane (ppm)'', ''#f59e0b''),
                 (''methane_percent'', ''Methane (%)'', ''#ec4899'')],
       domain = None, autoScale = False, alarmZones = None\<rparr>]"

text \<open>What \<open>ChartsPage\<close> renders.\<close>

datatype charts_screen =
  Loading_sensor_data | No_sensor_data_available | Charts nat "card list"

definition ChartsPage_render ::
  "(string \<Rightarrow> string) \<Rightarrow> (string \<Rightarrow> string) \<Rightarrow> ChartsPage \<Rightarrow> charts_screen" where
  "ChartsPage_render formatTimestamp toLocaleDateString s =
     (if ChartsPage.loading s then Loading_sensor_data
      else if length (ChartsPage.data s) = 0 then No_sensor_data_available
      else Charts (length (ChartsPage.data s))
        (map SensorChart
          (chart_definitions (chartData formatTimestamp toLocaleDateString (ChartsPage.data s)))))"

text \<open>The numeric columns of a row, by the key of the chart point's field.\<close>

definition numeric_channels :: "(string \<times> (SensorData \<Rightarrow> jsnumber nullable)) list" where
  "numeric_channels =
     [(''ph'', SensorData.ph), (''ph_voltage'', SensorData.ph_voltage),
      (''temp1'', SensorData.temp1), (''temp2'', SensorData.temp2),
      (''bme_temperature'', SensorData.bme_temperature),
      (''bme_humidity'', SensorData.bme_humidity),
      (''bme_pressure'', SensorData.bme_pressure),
      (''bme_gas_resistance'', SensorData.bme_gas_resistance),
      (''methane_ppm'', SensorData.methane_ppm),
      (''methane_percent'', SensorData.methane_percent),
      (''methane_temperature'', SensorData.methane_temperature)]"

section \<open>The dashboard page: the latest reading\<close>

text \<open>
  The component state of \<open>Home\<close>: the two \<open>useState\<close> slots, and what the effect
  holds: the push subscription, the poll interval, and the calls of \<open>fetchLatest\<close>
  that are suspended at their \<open>await\<close>.
\<close>

record Home =
  data :: "SensorData option"
  loading :: bool
  sub :: bool
  poll :: bool
  in_flight :: nat

text \<open>
  What the awaited query gives: an object whose \<open>data\<close> is the rows, or \<open>null\<close>
  when the query failed; or the promise rejects.
\<close>

datatype fetch_result = Resolved "SensorData list option" | Rejected

text \<open>\<open>rows?.[0] ?? null\<close>\<close>

definition first_or_null :: "'a list option \<Rightarrow> 'a option" where
  "first_or_null rows = (case rows of None \<Rightarrow> None | Some [] \<Rightarrow> None | Some (r # _) \<Rightarrow> Some r)"

text \<open>\<open>fetchLatest\<close> up to its \<open>await\<close>, and from there on.\<close>

definition fetchLatest_call :: "Home \<Rightarrow> Home" where
  "fetchLatest_call s = s\<lparr>loading := True, in_flight := Suc (in_flight s)\<rparr>"

definition fetchLatest_resume :: "fetch_result \<Rightarrow> Home \<Rightarrow> Home" where
  "fetchLatest_resume res s =
     (case res of
        Rejected \<Rightarrow> s\<lparr>in_flight := in_flight s - 1\<rparr>
      | Resolved rows \<Rightarrow>
          s\<lparr>data := first_or_null rows, loading := False, in_flight := in_flight s - 1\<rparr>)"

text \<open>The initial state, and the effect run on mount with its cleanup.\<close>

definition initial :: Home where
  "initial = \<lparr>data = None, loading = True, sub = False, poll = False, in_flight = 0\<rparr>"

definition mount :: Home where
  "mount = (fetchLatest_call initial)\<lparr>sub := True, poll := True\<rparr>"

definition cleanup :: "Home \<Rightarrow> Home" where
  "cleanup s = s\<lparr>sub := False, poll := False\<rparr>"

text \<open>
  The events of the page after mount: the client invokes the subscription's callback
  with a payload, the interval elapses, a suspended \<open>fetchLatest\<close> settles, the page
  unmounts. The callback stores the payload whenever it is invoked; it has no guard of
  its own, and \<open>unsubscribe\<close> is not awaited, so whether a delivery still arrives
  after the cleanup is up to the client. \<open>clearInterval\<close> takes effect at once: a
  cleared interval calls \<open>fetchLatest\<close> no more. The continuation of a suspended
  \<open>fetchLatest\<close> has no guard either.
\<close>

datatype event = Push SensorData | Tick | Settle fetch_result | Unmount

fun step :: "event \<Rightarrow> Home \<Rightarrow> Home" where
  "step (Push new) s = s\<lparr>data := Some new\<rparr>"
| "step Tick s = (if poll s then fetchLatest_call s else s)"
| "step (Settle res) s = (if 0 < in_flight s then fetchLatest_resume res s else s)"
| "step Unmount s = cleanup s"

definition run :: "event list \<Rightarrow> Home \<Rightarrow> Home" where
  "run evs s = fold step evs s"


text \<open>What \<open>Home\<close> renders.\<close>

datatype screen = Loading_latest_data | Dashboard "SensorData option"

definition Home_render :: "Home \<Rightarrow> screen" where
  "Home_render s = (if loading s \<and> data s = None then Loading_latest_data else Dashboard (data s))"


section \<open>Sample data\<close>

text \<open>A row with a pH reading only, and a chart point with a pressure reading only.\<close>

definition sample_row :: "string \<Rightarrow> jsnumber nullable \<Rightarrow> SensorData" where
  "sample_row ts v =
     \<lparr>SensorData.timestamp = ts, SensorData.ph = v, SensorData.ph_voltage = Null,
      SensorData.temp1 = Null, SensorData.temp2 = Null, SensorData.bme_temperature = Null,
      SensorData.bme_humidity = Null, SensorData.bme_pressure = Null,
      SensorData.bme_gas_resistance = Null, methan_raw = Null, SensorData.methane_ppm = Null,
      SensorData.methane_percent = Null, SensorData.methane_temperature = Null,
      methane_faults = Null\<rparr>"

definition sample_point :: "string \<Rightarrow> jsnumber option \<Rightarrow> ChartDataPoint" where
  "sample_point ts v =
     \<lparr>timestamp = ts, date = ts, ph = None, ph_voltage = None, temp1 = None, temp2 = None,
      bme_temperature = None, bme_humidity = None, bme_pressure = v,
      bme_gas_resistance = None, methane_ppm = None, methane_percent = None,
      methane_temperature = None\<rparr>"

definition newer :: SensorData where
  "newer = sample_row ''2024-05-02T10:00:00'' (Val (Num 7))"

definition older :: SensorData where
  "older = sample_row ''2024-05-01T10:00:00'' (Val (Num 6))"

text \<open>The dashboard once its first fetch has returned the row \<open>older\<close>.\<close>

definition synced :: Home where
  "synced = run [Settle (Resolved (Some [older]))] mount"

section \<open>Auxiliary facts\<close>

subsection \<open>The dashboard page\<close>





lemma synced_eq:
  "synced = \<lparr>data = Some older, loading = False, sub = True, poll = True, in_flight = 0\<rparr>"
  by (simp add: synced_def run_def mount_def initial_def fetchLatest_call_def
      fetchLatest_resume_def first_or_null_def)

text \<open>
  The charts page keeps its rows when the query reports an error or throws, and ends
  with \<open>loading\<close> false on every path.
\<close>

lemma fetchData_failure:
  "res = Error \<or> res = Thrown \<Longrightarrow>
     ChartsPage.data (fetchData res s) = ChartsPage.data s \<and> \<not> ChartsPage.loading (fetchData res s)"
  by (auto simp: fetchData_def)

lemma fetchData_loading: "\<not> ChartsPage.loading (fetchData res s)"
  by (simp add: fetchData_def split: query_result.splits)

subsection \<open>The charts page\<close>

lemma property_chartData:
  assumes "(key, column) \<in> set numeric_channels" and "i < length rows"
  shows "property (chartData f g rows ! i) key = of_optional (or_undefined (column (rows ! i)))"
proof -
  from assms(2) have nth: "chartData f g rows ! i = hd (chartData f g [rows ! i])"
    by (simp add: chartData_def)
  from assms(1) show ?thesis
    unfolding nth numeric_channels_def
    by (simp add: chartData_def, elim disjE) (simp_all add: property_def)
qed

lemma filteredData_iff:
  "pt \<in> set (filteredData pts keys) \<longleftrightarrow>
     pt \<in> set pts \<and> (\<exists>k \<in> set keys. property pt k \<noteq> JUndefined)"
  by (auto simp: filteredData_def list_ex_iff)

lemma set_allValues:
  "set (allValues keys pts) =
     {v. \<exists>k \<in> set keys. \<exists>pt \<in> set pts. property pt k = JNumber (Num v)}"
proof -
  have one: "set (case property pt k of JNumber (Num v) \<Rightarrow> [v] | _ \<Rightarrow> []) =
      {v. property pt k = JNumber (Num v)}" for pt k
    by (auto split: jsvalue.splits jsnumber.splits)
  show ?thesis
    unfolding allValues_def by (simp add: one) blast
qed

lemma yAxisDomain_pool:
  assumes pool: "allValues keys pts = v # vs"
  shows "yAxisDomain d True keys pts =
     Some (Min (set (v # vs)) - (Max (set (v # vs)) - Min (set (v # vs))) * 0.1,
           Max (set (v # vs)) + (Max (set (v # vs)) - Min (set (v # vs))) * 0.1)"
proof -
  from pool have "v \<in> set (allValues keys pts)" by simp
  then have "pts \<noteq> []" unfolding set_allValues by auto
  with pool show ?thesis
    by (simp add: yAxisDomain_def Let_def Min.set_eq_fold Max.set_eq_fold del: set_simps)
qed

lemma yAxisDomain_empty_pool: "allValues keys pts = [] \<Longrightarrow> yAxisDomain d a keys pts = d"
  by (simp add: yAxisDomain_def)

lemma SensorChart_Chart:
  "SensorChart p = Chart c \<Longrightarrow>
     chart_data c = filteredData (points p) (dataKeys p) \<and> chart_data c \<noteq> [] \<and>
     data_points c = length (chart_data c) \<and>
     y_domain c = yAxisDomain (domain p) (autoScale p) (dataKeys p) (chart_data c)"
  by (auto simp: SensorChart_def Let_def split: if_splits)

lemma three_bands:
  fixes x :: real
  assumes zs: "zs = [z0, z1, z2]"
    and b: "min' z0 = a" "max' z0 = b" "min' z1 = b" "max' z1 = c" "min' z2 = c" "max' z2 = d"
    and ord: "a < b" "b < c" "c < d"
    and x: "a \<le> x" "x \<le> d"
  shows "\<exists>!i. i < length zs \<and> min' (zs ! i) \<le> x \<and>
           (x < max' (zs ! i) \<or> (Suc i = length zs \<and> x = max' (zs ! i)))"
proof -
  let ?P = "\<lambda>i. i < length zs \<and> min' (zs ! i) \<le> x \<and>
           (x < max' (zs ! i) \<or> (Suc i = length zs \<and> x = max' (zs ! i)))"
  have P0: "?P 0 \<longleftrightarrow> x < b" using x by (simp add: zs b)
  have P1: "?P 1 \<longleftrightarrow> b \<le> x \<and> x < c" by (simp add: zs b)
  have P2: "?P 2 \<longleftrightarrow> c \<le> x" using x by (auto simp: zs b)
  have idx: "i = 0 \<or> i = 1 \<or> i = 2" if "?P i" for i
    using that by (auto simp: zs)
  consider "x < b" | "b \<le> x" "x < c" | "c \<le> x" by linarith
  then show ?thesis
  proof cases
    case 1
    with P0 have "?P 0" by blast
    moreover have "i = 0" if "?P i" for i
      using idx [OF that] that P1 P2 1 ord by auto
    ultimately show ?thesis by blast
  next
    case 2
    with P1 have "?P 1" by blast
    moreover have "i = 1" if "?P i" for i
      using idx [OF that] that P0 P2 2 by auto
    ultimately show ?thesis by blast
  next
    case 3
    with P2 have "?P 2" by blast
    moreover have "i = 2" if "?P i" for i
      using idx [OF that] that P0 P1 3 ord by auto
    ultimately show ?thesis by blast
  qed
qed

lemma three_bands_ordered:
  fixes a :: real
  assumes zs: "zs = [z0, z1, z2]"
    and b: "min' z0 = a" "max' z0 = b" "min' z1 = b" "max' z1 = c" "min' z2 = c" "max' z2 = d"
    and ord: "a < b" "b < c" "c < d"
  shows "sorted_wrt (<) (map min' zs)
       \<and> (\<forall>i. Suc i < length zs \<longrightarrow> max' (zs ! i) = min' (zs ! Suc i))
       \<and> (\<forall>i j. i < j \<and> j < length zs \<longrightarrow> max' (zs ! i) \<le> min' (zs ! j))
       \<and> (\<forall>z \<in> set zs. min' z < max' z)
       \<and> min' (hd zs) = a \<and> max' (last zs) = d"
  using ord by (auto simp: zs b less_Suc_eq)

section \<open>The latest reading\<close>

text \<open>
  C1. A fetch of the latest reading that fails should leave the held reading as it is
  and end with \<open>loading\<close> false. The page does not: \<open>fetchLatest\<close> never looks at
  the query's error, so a poll that fails once the page holds the row \<open>older\<close>
  resolves with no rows and stores \<open>null\<close> over that row. Were the awaited promise
  to reject, the reading would stay and \<open>loading\<close> would stay true instead. The charts
  page's \<open>fetchData\<close> handles both (\<open>fetchData_failure\<close>).
\<close>

theorem failed_poll_clears_reading:
  "data synced = Some older
   \<and> data (run [Tick, Settle (Resolved None)] synced) = None
   \<and> loading (run [Tick, Settle (Resolved None)] synced) = False
   \<and> data (run [Tick, Settle Rejected] synced) = Some older
   \<and> loading (run [Tick, Settle Rejected] synced) = True"
  by (simp add: synced_eq run_def fetchLatest_call_def fetchLatest_resume_def first_or_null_def)

text \<open>
  C2. Last write wins, with no check of the order: while the page is subscribed a push
  stores its payload whatever is held, and a poll that completes after a push, whether
  it was issued after the push or before it, stores the row it returns, whatever the
  two timestamps are.
\<close>

theorem last_write_wins:
  assumes "sub s" and "poll s"
  shows "data (step (Push r1) s) = Some r1
       \<and> data (run [Push r1, Tick, Settle (Resolved (Some (r2 # rest)))] s) = Some r2
       \<and> data (run [Tick, Push r1, Settle (Resolved (Some (r2 # rest)))] s) = Some r2"
  using assms
  by (simp add: run_def fetchLatest_call_def fetchLatest_resume_def first_or_null_def)

theorem last_write_wins_witness:
  "sub mount \<and> poll mount
   \<and> data (step (Push newer) mount) = Some newer
   \<and> data (run [Push newer, Tick, Settle (Resolved (Some [older]))] mount) = Some older"
  using last_write_wins [of mount newer older "[]"]
  by (simp add: mount_def)

text \<open>
  C3, as the page has it. \<open>loading\<close> is true from mount and is set to true again at
  the start of every fetch, each poll included; a fetch that resolves sets it to false;
  no other transition (a push, a rejected fetch, the teardown) changes it, so the only
  step that raises it is a tick of the running interval.
\<close>

theorem loading_raised_by_every_fetch:
  "loading mount
   \<and> (poll s \<longrightarrow> loading (step Tick s))
   \<and> (0 < in_flight s \<longrightarrow> \<not> loading (step (Settle (Resolved rows)) s))
   \<and> loading (step (Push r) s) = loading s
   \<and> loading (step (Settle Rejected) s) = loading s
   \<and> loading (step Unmount s) = loading s
   \<and> (\<not> loading s \<and> loading (step e s) \<longrightarrow> e = Tick \<and> poll s)"
proof -
  have "e = Tick \<and> poll s" if "\<not> loading s" "loading (step e s)"
    using that
    by (cases e) (auto simp: fetchLatest_resume_def cleanup_def split: if_splits fetch_result.splits)
  then show ?thesis
    by (auto simp: mount_def fetchLatest_call_def fetchLatest_resume_def cleanup_def)
qed

theorem loading_raised_by_every_fetch_witness:
  "poll synced \<and> \<not> loading synced \<and> loading (step Tick synced)
   \<and> 0 < in_flight (step Tick synced)
   \<and> \<not> loading (step (Settle (Resolved (Some [newer]))) (step Tick synced))"
  using loading_raised_by_every_fetch [of synced] loading_raised_by_every_fetch [of "step Tick synced" "Some [newer]"]
  by (simp add: synced_eq fetchLatest_call_def)

text \<open>
  C3, as stated, fails: once the first fetch has returned and \<open>loading\<close> is false, the
  next poll sets it to true.
\<close>

theorem poll_raises_loading:
  "loading (run [Settle (Resolved (Some [older]))] mount) = False
   \<and> loading (run [Settle (Resolved (Some [older])), Tick] mount) = True"
  by (simp add: run_def mount_def initial_def fetchLatest_call_def fetchLatest_resume_def)




text \<open>
  C10, as the page has it. The page shows the loading placeholder exactly when
  \<open>loading\<close> is true and no reading is held. So while a reading is held, a fetch that
  raises \<open>loading\<close> (a call of \<open>fetchLatest\<close>, a tick of the interval) leaves that
  reading on the screen.
\<close>

theorem placeholder_iff_loading_without_reading:
  "(Home_render s = Loading_latest_data \<longleftrightarrow> loading s \<and> data s = None)
   \<and> (data s = Some r \<longrightarrow> Home_render (fetchLatest_call s) = Dashboard (Some r))
   \<and> (data s = Some r \<longrightarrow> Home_render (step Tick s) = Dashboard (Some r))
   \<and> (data s = Some r \<and> poll s \<longrightarrow>
        loading (step Tick s) \<and> Home_render (step Tick s) = Dashboard (Some r))"
  by (auto simp: Home_render_def fetchLatest_call_def)

theorem placeholder_iff_loading_without_reading_witness:
  "data synced = Some older \<and> poll synced \<and> loading (step Tick synced)
   \<and> Home_render (step Tick synced) = Dashboard (Some older)
   \<and> Home_render mount = Loading_latest_data"
  using placeholder_iff_loading_without_reading [of synced older]
    placeholder_iff_loading_without_reading [of mount]
  by (simp add: synced_eq mount_def initial_def fetchLatest_call_def)

text \<open>
  C10, as stated, fails: a reading once stored does not keep the placeholder away.
  A poll that returns no row (the source is empty, or the query failed) stores
  \<open>null\<close> over the reading, and the next poll raises \<open>loading\<close> with nothing held.
\<close>

theorem placeholder_returns_after_empty_poll:
  "data synced = Some older
   \<and> Home_render (run [Tick] synced) = Dashboard (Some older)
   \<and> Home_render (run [Tick, Settle (Resolved (Some []))] synced) = Dashboard None
   \<and> Home_render (run [Tick, Settle (Resolved (Some [])), Tick] synced) = Loading_latest_data
   \<and> Home_render (run [Tick, Settle (Resolved None), Tick] synced) = Loading_latest_data"
  by (simp add: synced_eq run_def Home_render_def fetchLatest_call_def fetchLatest_resume_def
      first_or_null_def)

section \<open>The chart data\<close>

text \<open>
  C4. \<open>chartData\<close> gives one chart point per row, in the rows' order. In each numeric
  channel a column that is \<open>null\<close> or missing is absent from the point (reading it
  gives \<open>undefined\<close>, which is neither \<open>0\<close> nor \<open>NaN\<close>), and a column with a number
  carries that number, so a \<open>0\<close> in the row is a \<open>0\<close> on the point.
\<close>

theorem chartData_absent_is_not_zero:
  assumes "(key, column) \<in> set numeric_channels" and "i < length rows"
  shows "length (chartData f g rows) = length rows
       \<and> (column (rows ! i) = Null \<or> column (rows ! i) = Missing \<longrightarrow>
            property (chartData f g rows ! i) key = JUndefined
            \<and> property (chartData f g rows ! i) key \<noteq> JNumber (Num 0)
            \<and> property (chartData f g rows ! i) key \<noteq> JNumber NaN)
       \<and> (column (rows ! i) = Val (Num 0) \<longrightarrow>
            property (chartData f g rows ! i) key = JNumber (Num 0))
       \<and> (\<forall>n. column (rows ! i) = Val n \<longrightarrow> property (chartData f g rows ! i) key = JNumber n)"
proof -
  have "property (chartData f g rows ! i) key = of_optional (or_undefined (column (rows ! i)))"
    using assms by (rule property_chartData)
  then show ?thesis
    by (auto simp: chartData_def of_optional_def or_undefined_def)
qed

theorem chartData_absent_is_not_zero_witness:
  "(''ph'', SensorData.ph) \<in> set numeric_channels
   \<and> (1::nat) < length [sample_row ''a'' Null, sample_row ''b'' (Val (Num 0)), sample_row ''c'' Missing]
   \<and> ph (chartData id id [sample_row ''a'' Null, sample_row ''b'' (Val (Num 0)), sample_row ''c'' Missing] ! 0) = None
   \<and> property (chartData id id [sample_row ''a'' Null, sample_row ''b'' (Val (Num 0)), sample_row ''c'' Missing] ! 1) ''ph''
       = JNumber (Num 0)
   \<and> ph (chartData id id [sample_row ''a'' Null, sample_row ''b'' (Val (Num 0)), sample_row ''c'' Missing] ! 2) = None"
  using chartData_absent_is_not_zero [of "''ph''" SensorData.ph 1
      "[sample_row ''a'' Null, sample_row ''b'' (Val (Num 0)), sample_row ''c'' Missing]" id id]
  by (simp add: numeric_channels_def sample_row_def chartData_def or_undefined_def)

text \<open>
  C6. \<open>filteredData\<close> is the points that carry a value for at least one of the keys, in
  their order: a subsequence of the points, no longer than them, and a point is in it
  exactly when it is one of the points and one of the keys is present on it.
\<close>

theorem filteredData_subsequence:
  "filteredData pts keys = filter (\<lambda>pt. \<exists>k \<in> set keys. property pt k \<noteq> JUndefined) pts
   \<and> subseq (filteredData pts keys) pts
   \<and> length (filteredData pts keys) \<le> length pts
   \<and> (pt \<in> set (filteredData pts keys) \<longleftrightarrow>
        pt \<in> set pts \<and> (\<exists>k \<in> set keys. property pt k \<noteq> JUndefined))"
proof -
  have "filteredData pts keys = filter (\<lambda>pt. \<exists>k \<in> set keys. property pt k \<noteq> JUndefined) pts"
    by (simp add: filteredData_def list_ex_iff)
  moreover have "subseq (filteredData pts keys) pts"
    by (simp add: filteredData_def)
  moreover have "length (filteredData pts keys) \<le> length pts"
    by (simp add: filteredData_def)
  ultimately show ?thesis
    using filteredData_iff [of pt pts keys] by blast
qed

theorem filteredData_subsequence_witness:
  "filteredData
     [sample_point ''a'' (Some (Num 10)), sample_point ''b'' None, sample_point ''c'' (Some (Num 0))]
     [''ph'', ''bme_pressure'']
   = [sample_point ''a'' (Some (Num 10)), sample_point ''c'' (Some (Num 0))]
   \<and> subseq [sample_point ''a'' (Some (Num 10)), sample_point ''c'' (Some (Num 0))]
       [sample_point ''a'' (Some (Num 10)), sample_point ''b'' None, sample_point ''c'' (Some (Num 0))]"
proof -
  let ?pts = "[sample_point ''a'' (Some (Num 10)), sample_point ''b'' None,
    sample_point ''c'' (Some (Num 0))]"
  let ?keys = "[''ph'', ''bme_pressure'']"
  have present: "property (sample_point ts (Some v)) ''bme_pressure'' \<noteq> JUndefined" for ts v
    by (simp add: property_def sample_point_def of_optional_def)
  have absent: "property (sample_point ts v) ''ph'' = JUndefined"
    "property (sample_point ts None) ''bme_pressure'' = JUndefined" for ts v
    by (simp_all add: property_def sample_point_def of_optional_def)
  have eq: "filteredData ?pts ?keys =
      [sample_point ''a'' (Some (Num 10)), sample_point ''c'' (Some (Num 0))]"
    by (simp add: filteredData_def present absent)
  from filteredData_subsequence [of ?pts ?keys]
  have "subseq (filteredData ?pts ?keys) ?pts" by (rule conjunct1 [OF conjunct2])
  then have "subseq [sample_point ''a'' (Some (Num 10)), sample_point ''c'' (Some (Num 0))] ?pts"
    by (simp only: eq)
  with eq show ?thesis by (rule conjI)
qed

text \<open>
  C7. \<open>SensorChart\<close> returns the card that says no data is available exactly when no
  point is left after filtering, that is when no point carries any of the chart's
  keys; a chart it does return has at least one point.
\<close>

theorem no_data_when_no_point_has_a_key:
  "(SensorChart p = No_data_available (title p) (description p) \<longleftrightarrow>
      filteredData (points p) (dataKeys p) = [])
   \<and> ((\<forall>pt \<in> set (points p). \<forall>k \<in> set (dataKeys p). property pt k = JUndefined) \<longrightarrow>
        SensorChart p = No_data_available (title p) (description p))
   \<and> (\<forall>c. SensorChart p = Chart c \<longrightarrow> chart_data c \<noteq> [] \<and> 0 < data_points c)"
proof -
  have a: "SensorChart p = No_data_available (title p) (description p) \<longleftrightarrow>
      filteredData (points p) (dataKeys p) = []"
    by (simp add: SensorChart_def Let_def)
  have b: "filteredData (points p) (dataKeys p) = []"
    if "\<forall>pt \<in> set (points p). \<forall>k \<in> set (dataKeys p). property pt k = JUndefined"
    using that by (auto simp: filteredData_def filter_empty_conv list_ex_iff)
  have c: "chart_data c \<noteq> [] \<and> 0 < data_points c" if "SensorChart p = Chart c" for c
    using SensorChart_Chart [OF that] by auto
  from a b c show ?thesis by blast
qed

theorem no_data_when_no_point_has_a_key_witness:
  "SensorChart (hd (chart_definitions [sample_point ''a'' (Some (Num 10)), sample_point ''b'' None]))
   = No_data_available ''pH Value'' ''pH level over time''"
  using no_data_when_no_point_has_a_key
    [of "hd (chart_definitions [sample_point ''a'' (Some (Num 10)), sample_point ''b'' None])"]
  by (simp add: chart_definitions_def filteredData_def property_def sample_point_def of_optional_def)

text \<open>
  C5. For a chart that scales itself and is drawn, the pool holds the numbers (not
  \<open>NaN\<close>) that the filtered points carry under the chart's keys. With an empty pool
  the scaling produces no domain: the axis keeps the configured one, none where none
  is configured. Otherwise the domain is \<open>[min - range * 0.1, max + range * 0.1]\<close>
  with \<open>range = max - min\<close>: \<open>[8, 32]\<close> for the values 10, 20, 30, and the
  zero-width \<open>[5, 5]\<close> for 5, 5, 5.
\<close>

theorem autoScale_domain:
  assumes "autoScale p" and "SensorChart p = Chart c"
  shows "set (allValues (dataKeys p) (chart_data c)) =
           {v. \<exists>k \<in> set (dataKeys p). \<exists>pt \<in> set (chart_data c). property pt k = JNumber (Num v)}
       \<and> (allValues (dataKeys p) (chart_data c) = [] \<longrightarrow> y_domain c = domain p)
       \<and> (allValues (dataKeys p) (chart_data c) = [] \<and> domain p = None \<longrightarrow> y_domain c = None)
       \<and> (allValues (dataKeys p) (chart_data c) \<noteq> [] \<longrightarrow>
            (let pool = set (allValues (dataKeys p) (chart_data c));
                 range = Max pool - Min pool
             in y_domain c = Some (Min pool - range * 0.1, Max pool + range * 0.1)))
       \<and> yAxisDomain None True [''bme_pressure'']
            [sample_point ''a'' (Some (Num 10)), sample_point ''b'' (Some (Num 20)),
             sample_point ''c'' (Some (Num 30))] = Some (8, 32)
       \<and> yAxisDomain None True [''bme_pressure'']
            [sample_point ''a'' (Some (Num 5)), sample_point ''b'' (Some (Num 5)),
             sample_point ''c'' (Some (Num 5))] = Some (5, 5)"
proof -
  note c = SensorChart_Chart [OF assms(2)]
  from c assms(1) have y: "y_domain c = yAxisDomain (domain p) True (dataKeys p) (chart_data c)"
    by simp
  have empty: "y_domain c = domain p" if "allValues (dataKeys p) (chart_data c) = []"
    using that y by (simp add: yAxisDomain_empty_pool)
  have pool: "let pool = set (allValues (dataKeys p) (chart_data c));
                 range = Max pool - Min pool
             in y_domain c = Some (Min pool - range * 0.1, Max pool + range * 0.1)"
    if "allValues (dataKeys p) (chart_data c) \<noteq> []"
  proof -
    from that obtain v vs where vs: "allValues (dataKeys p) (chart_data c) = v # vs"
      by (cases "allValues (dataKeys p) (chart_data c)") auto
    show ?thesis
      unfolding y vs Let_def by (rule yAxisDomain_pool [OF vs])
  qed
  have ex1: "yAxisDomain None True [''bme_pressure'']
            [sample_point ''a'' (Some (Num 10)), sample_point ''b'' (Some (Num 20)),
             sample_point ''c'' (Some (Num 30))] = Some (8, 32)"
    by (simp add: yAxisDomain_def allValues_def property_def sample_point_def of_optional_def)
  have ex2: "yAxisDomain None True [''bme_pressure'']
            [sample_point ''a'' (Some (Num 5)), sample_point ''b'' (Some (Num 5)),
             sample_point ''c'' (Some (Num 5))] = Some (5, 5)"
    by (simp add: yAxisDomain_def allValues_def property_def sample_point_def of_optional_def)
  from empty pool ex1 ex2 set_allValues [of "dataKeys p" "chart_data c"] show ?thesis
    by (intro conjI impI) simp_all
qed

theorem autoScale_domain_witness:
  "autoScale (chart_definitions
       [sample_point ''a'' (Some (Num 10)), sample_point ''b'' (Some (Num 20)),
        sample_point ''c'' (Some (Num 30))] ! 4)
   \<and> SensorChart (chart_definitions
       [sample_point ''a'' (Some (Num 10)), sample_point ''b'' (Some (Num 20)),
        sample_point ''c'' (Some (Num 30))] ! 4)
     = Chart (the_chart (SensorChart (chart_definitions
       [sample_point ''a'' (Some (Num 10)), sample_point ''b'' (Some (Num 20)),
        sample_point ''c'' (Some (Num 30))] ! 4)))
   \<and> y_domain (the_chart (SensorChart (chart_definitions
       [sample_point ''a'' (Some (Num 10)), sample_point ''b'' (Some (Num 20)),
        sample_point ''c'' (Some (Num 30))] ! 4))) = Some (8, 32)"
proof -
  let ?pts = "[sample_point ''a'' (Some (Num 10)), sample_point ''b'' (Some (Num 20)),
        sample_point ''c'' (Some (Num 30))]"
  let ?p = "chart_definitions ?pts ! 4"
  let ?c = "the_chart (SensorChart ?p)"
  have p: "autoScale ?p" "dataKeys ?p = [''bme_pressure'']" "points ?p = ?pts"
    by (simp_all add: chart_definitions_def)
  have present: "property (sample_point ts (Some (Num v))) ''bme_pressure'' = JNumber (Num v)"
    for ts v
    by (simp add: property_def sample_point_def of_optional_def)
  have filtered: "filteredData ?pts [''bme_pressure''] = ?pts"
    by (simp add: filteredData_def present)
  have chart: "SensorChart ?p = Chart ?c"
    by (simp add: SensorChart_def Let_def p filtered)
  have data: "chart_data ?c = ?pts"
    by (simp add: SensorChart_def Let_def p filtered)
  have pool: "allValues [''bme_pressure''] ?pts = [10, 20, 30]"
    by (simp add: allValues_def present)
  from autoScale_domain [OF p(1) chart]
  have "y_domain ?c = Some (8, 32)"
    unfolding p data pool by (simp add: Let_def)
  with p(1) chart show ?thesis by blast
qed

text \<open>
  C8. The alarm zones of pH and of the tank temperature are each in ascending order
  of \<open>min\<close>, each zone ends where the next begins and no zone reaches into a later
  one, and every value from the first \<open>min\<close> to the last \<open>max\<close> lies in exactly one
  zone when a zone holds its \<open>min\<close> and, the last zone apart, not its \<open>max\<close>. The
  zones span 0 to 14 for pH and 0 to 80 for the tank temperature, and no chart has
  other zones.
\<close>

theorem alarm_zones_contiguous:
  assumes "zs = ALARM_ZONES_ph \<or> zs = ALARM_ZONES_tank_temperature"
  shows "sorted_wrt (<) (map min' zs)
       \<and> (\<forall>i. Suc i < length zs \<longrightarrow> max' (zs ! i) = min' (zs ! Suc i))
       \<and> (\<forall>i j. i < j \<and> j < length zs \<longrightarrow> max' (zs ! i) \<le> min' (zs ! j))
       \<and> (\<forall>z \<in> set zs. min' z < max' z)
       \<and> (\<forall>x. min' (hd zs) \<le> x \<and> x \<le> max' (last zs) \<longrightarrow>
            (\<exists>!i. i < length zs \<and> min' (zs ! i) \<le> x \<and>
               (x < max' (zs ! i) \<or> (Suc i = length zs \<and> x = max' (zs ! i)))))
       \<and> min' (hd ALARM_ZONES_ph) = 0 \<and> max' (last ALARM_ZONES_ph) = 14
       \<and> min' (hd ALARM_ZONES_tank_temperature) = 0
       \<and> max' (last ALARM_ZONES_tank_temperature) = 80
       \<and> (\<forall>p \<in> set (chart_definitions pts). \<forall>zs'. alarmZones p = Some zs' \<longrightarrow>
            zs' = ALARM_ZONES_ph \<or> zs' = ALARM_ZONES_tank_temperature)"
proof -
  have ends: "min' (hd ALARM_ZONES_ph) = 0" "max' (last ALARM_ZONES_ph) = 14"
    "min' (hd ALARM_ZONES_tank_temperature) = 0" "max' (last ALARM_ZONES_tank_temperature) = 80"
    by (simp_all add: ALARM_ZONES_ph_def ALARM_ZONES_tank_temperature_def)
  have charts: "\<forall>p \<in> set (chart_definitions pts). \<forall>zs'. alarmZones p = Some zs' \<longrightarrow>
            zs' = ALARM_ZONES_ph \<or> zs' = ALARM_ZONES_tank_temperature"
    by (simp add: chart_definitions_def)
  from assms obtain z0 z1 z2 and a b c d :: real
    where zs: "zs = [z0, z1, z2]"
      and b: "min' z0 = a" "max' z0 = b" "min' z1 = b" "max' z1 = c" "min' z2 = c" "max' z2 = d"
      and ord: "a < b" "b < c" "c < d"
    by (auto simp: ALARM_ZONES_ph_def ALARM_ZONES_tank_temperature_def)
  note ordered = three_bands_ordered [OF zs b ord]
  have once: "\<exists>!i. i < length zs \<and> min' (zs ! i) \<le> x \<and>
               (x < max' (zs ! i) \<or> (Suc i = length zs \<and> x = max' (zs ! i)))"
    if "min' (hd zs) \<le> x \<and> x \<le> max' (last zs)" for x
  proof -
    from that ordered have "a \<le> x" "x \<le> d" by simp_all
    then show ?thesis by (rule three_bands [OF zs b ord])
  qed
  from ordered once ends charts show ?thesis by blast
qed

theorem alarm_zones_contiguous_witness:
  "max' (ALARM_ZONES_ph ! 0) = min' (ALARM_ZONES_ph ! 1)
   \<and> max' (ALARM_ZONES_ph ! 1) = min' (ALARM_ZONES_ph ! 2)
   \<and> (\<exists>!i. i < length ALARM_ZONES_ph \<and> min' (ALARM_ZONES_ph ! i) \<le> 6 \<and>
         (6 < max' (ALARM_ZONES_ph ! i) \<or>
          (Suc i = length ALARM_ZONES_ph \<and> 6 = max' (ALARM_ZONES_ph ! i))))"
proof -
  note inst = alarm_zones_contiguous [of ALARM_ZONES_ph]
  have len: "length ALARM_ZONES_ph = 3" by (simp add: ALARM_ZONES_ph_def)
  have range: "min' (hd ALARM_ZONES_ph) \<le> 6 \<and> 6 \<le> max' (last ALARM_ZONES_ph)"
    by (simp add: ALARM_ZONES_ph_def)
  from inst have "\<forall>i. Suc i < length ALARM_ZONES_ph \<longrightarrow>
      max' (ALARM_ZONES_ph ! i) = min' (ALARM_ZONES_ph ! Suc i)" by blast
  then have "max' (ALARM_ZONES_ph ! 0) = min' (ALARM_ZONES_ph ! Suc 0)"
    "max' (ALARM_ZONES_ph ! Suc 0) = min' (ALARM_ZONES_ph ! Suc (Suc 0))"
    by (simp_all add: len)
  moreover from inst range have "\<exists>!i. i < length ALARM_ZONES_ph \<and> min' (ALARM_ZONES_ph ! i) \<le> 6 \<and>
         (6 < max' (ALARM_ZONES_ph ! i) \<or>
          (Suc i = length ALARM_ZONES_ph \<and> 6 = max' (ALARM_ZONES_ph ! i)))"
    by blast
  ultimately show ?thesis by (simp add: numeral_2_eq_2)
qed

end
